theory Spec2Isabelle
  imports Complex_Main "HOL-Library.Word"
begin

section \<open>The note detector of fretlearner (src/audio-detector.js, second class AudioDetector)\<close>

text \<open>
  The detector is one mutable object driven once per animation frame by \<open>detectPitch\<close>.
  The embedding threads that object as a record through pure functions.  Conventions:

  \<^item> A JavaScript number that can only be finite on the path at hand is a \<open>real\<close>; the
    rounding of IEEE doubles and of \<open>Float32Array\<close> cells is not modelled.  Where the
    source can produce \<open>NaN\<close> or an infinity (the divisions of \<open>yinPitch\<close>), the value
    is a \<open>jsnum\<close> and the special values are explicit.  Signed zero is not modelled: every
    zero divisor that occurs is the result of a subtraction or of a sum of squares, which
    is \<open>+0\<close> in IEEE arithmetic.
  \<^item> \<open>Date.now()\<close> is an argument \<open>now\<close> (milliseconds, an integer).
  \<^item> The analyser node delivers a time-domain buffer (\<open>Float32Array\<close>, a \<open>real list\<close>)
    and a byte spectrum (\<open>Uint8Array\<close>, an \<open>8 word list\<close>); \<open>analyser.fftSize\<close> is the
    length of the time-domain buffer, and \<open>audioContext.sampleRate\<close> comes with the frame.
  \<^item> The callbacks \<open>onVolumeChange\<close> and \<open>onNoteDetected\<close> are modelled by the values
    they are called with; the debug channel (\<open>emitDebugData\<close>) only reads the state and
    is left out.
\<close>

subsection \<open>JavaScript numbers with their special values\<close>

datatype jsnum = Num real | NaN | PosInf | NegInf

fun js_neg :: "jsnum \<Rightarrow> jsnum" where
  "js_neg (Num a) = Num (- a)"
| "js_neg NaN = NaN"
| "js_neg PosInf = NegInf"
| "js_neg NegInf = PosInf"

fun js_add :: "jsnum \<Rightarrow> jsnum \<Rightarrow> jsnum" where
  "js_add (Num a) (Num b) = Num (a + b)"
| "js_add NaN _ = NaN"
| "js_add _ NaN = NaN"
| "js_add PosInf NegInf = NaN"
| "js_add NegInf PosInf = NaN"
| "js_add PosInf _ = PosInf"
| "js_add NegInf _ = NegInf"
| "js_add _ PosInf = PosInf"
| "js_add _ NegInf = NegInf"

definition js_sub :: "jsnum \<Rightarrow> jsnum \<Rightarrow> jsnum" where
  "js_sub a b = js_add a (js_neg b)"

definition signed_inf :: "real \<Rightarrow> jsnum" where
  "signed_inf a = (if a = 0 then NaN else if a > 0 then PosInf else NegInf)"

fun js_mul :: "jsnum \<Rightarrow> jsnum \<Rightarrow> jsnum" where
  "js_mul (Num a) (Num b) = Num (a * b)"
| "js_mul NaN _ = NaN"
| "js_mul _ NaN = NaN"
| "js_mul PosInf (Num b) = signed_inf b"
| "js_mul NegInf (Num b) = signed_inf (- b)"
| "js_mul (Num a) PosInf = signed_inf a"
| "js_mul (Num a) NegInf = signed_inf (- a)"
| "js_mul PosInf PosInf = PosInf"
| "js_mul NegInf NegInf = PosInf"
| "js_mul PosInf NegInf = NegInf"
| "js_mul NegInf PosInf = NegInf"

text \<open>Division: \<open>x / 0\<close> is an infinity with the sign of \<open>x\<close>, and \<open>0 / 0\<close> is \<open>NaN\<close>.\<close>

fun js_div :: "jsnum \<Rightarrow> jsnum \<Rightarrow> jsnum" where
  "js_div (Num a) (Num b) = (if b = 0 then signed_inf a else Num (a / b))"
| "js_div NaN _ = NaN"
| "js_div _ NaN = NaN"
| "js_div (Num a) PosInf = Num 0"
| "js_div (Num a) NegInf = Num 0"
| "js_div PosInf (Num b) = (if b < 0 then NegInf else PosInf)"
| "js_div NegInf (Num b) = (if b < 0 then PosInf else NegInf)"
| "js_div PosInf _ = NaN"
| "js_div NegInf _ = NaN"

text \<open>Comparisons: every comparison with \<open>NaN\<close> (or \<open>undefined\<close>) is false.\<close>

fun js_lt :: "jsnum \<Rightarrow> jsnum \<Rightarrow> bool" where
  "js_lt (Num a) (Num b) = (a < b)"
| "js_lt NaN _ = False"
| "js_lt _ NaN = False"
| "js_lt NegInf NegInf = False"
| "js_lt NegInf _ = True"
| "js_lt PosInf _ = False"
| "js_lt (Num a) PosInf = True"
| "js_lt (Num a) NegInf = False"

fun js_ge :: "jsnum \<Rightarrow> jsnum \<Rightarrow> bool" where
  "js_ge NaN _ = False"
| "js_ge _ NaN = False"
| "js_ge a b = (\<not> js_lt a b)"

text \<open>\<open>Math.round\<close> rounds half-way cases towards \<open>+\<infinity>\<close>.\<close>

definition js_round :: "real \<Rightarrow> int" where
  "js_round x = \<lfloor>x + 1 / 2\<rfloor>"

text \<open>The remainder operator \<open>%\<close> of JavaScript truncates: the result has the sign of the dividend.\<close>

definition js_rem :: "int \<Rightarrow> int \<Rightarrow> int" where
  "js_rem a b = (if a \<ge> 0 then a mod \<bar>b\<bar> else - ((- a) mod \<bar>b\<bar>))"

subsection \<open>Constants of the constructor\<close>

definition NOTE_NAMES :: "string list" where
  "NOTE_NAMES = [''C'', ''C#'', ''D'', ''D#'', ''E'', ''F'', ''F#'', ''G'', ''G#'', ''A'', ''A#'', ''B'']"

definition A4_FREQUENCY :: real where "A4_FREQUENCY = 440"
definition A4_MIDI_NUMBER :: int where "A4_MIDI_NUMBER = 69"
definition YIN_THRESHOLD :: real where "YIN_THRESHOLD = 15 / 100"
definition MIN_FREQUENCY :: real where "MIN_FREQUENCY = 50"
definition MAX_FREQUENCY :: real where "MAX_FREQUENCY = 2000"
definition ONSET_THRESHOLD :: real where "ONSET_THRESHOLD = 3 / 10"
definition FLUX_HISTORY_SIZE :: nat where "FLUX_HISTORY_SIZE = 5"
definition envelopeSmoothing :: real where "envelopeSmoothing = 3 / 10"
definition ATTACK_THRESHOLD :: real where "ATTACK_THRESHOLD = 2 / 100"
definition RELEASE_THRESHOLD :: real where "RELEASE_THRESHOLD = 1 / 100"
definition MIN_NOTE_DURATION :: int where "MIN_NOTE_DURATION = 100"
definition ATTACK_HYSTERESIS_FRAMES :: nat where "ATTACK_HYSTERESIS_FRAMES = 3"
definition RELEASE_HYSTERESIS_FRAMES :: nat where "RELEASE_HYSTERESIS_FRAMES = 5"
definition MIN_HARMONIC_CONFIDENCE :: real where "MIN_HARMONIC_CONFIDENCE = 1 / 2"
definition COOLDOWN_DURATION :: nat where "COOLDOWN_DURATION = 50"
definition FFT_SIZE :: nat where "FFT_SIZE = 4096"

lemmas constants =
  A4_FREQUENCY_def A4_MIDI_NUMBER_def YIN_THRESHOLD_def MIN_FREQUENCY_def MAX_FREQUENCY_def
  ONSET_THRESHOLD_def FLUX_HISTORY_SIZE_def envelopeSmoothing_def ATTACK_THRESHOLD_def
  RELEASE_THRESHOLD_def MIN_NOTE_DURATION_def ATTACK_HYSTERESIS_FRAMES_def
  RELEASE_HYSTERESIS_FRAMES_def MIN_HARMONIC_CONFIDENCE_def COOLDOWN_DURATION_def

subsection \<open>Data\<close>

datatype note_state = SILENCE | ATTACK | SUSTAIN | RELEASE

text \<open>The object returned by \<open>frequencyToNote\<close>; \<open>name\<close> is \<open>undefined\<close> (\<open>None\<close>) when the
  index computed with \<open>%\<close> is negative.\<close>

record note_info =
  name :: "string option"
  octave :: int
  frequency :: real
  cents :: int
  midiNumber :: int

text \<open>\<open>currentNote\<close>: the spread of the note information (nothing when \<open>frequencyToNote\<close>
  returned \<open>null\<close>) together with the two confidences at the moment of capture.\<close>

record candidate =
  noteInfo :: "note_info option"
  confidence :: jsnum
  capturedHarmonic :: real

record detector =
  isDetecting :: bool
  previousSpectrum :: "8 word list option"
  spectralFlux :: real
  fluxHistory :: "real list"
  noteState :: note_state
  envelope :: real
  peakEnvelope :: real
  currentNote :: "candidate option"
  noteStartTime :: int
  framesSinceAttack :: nat
  framesSinceRelease :: nat
  harmonicConfidence :: real
  cooldownFrames :: nat

text \<open>What the analyser and the audio context deliver on one tick.\<close>

record frame =
  timeBuffer :: "real list"
  freqBuffer :: "8 word list"
  sampleRate :: real

text \<open>The argument of \<open>onNoteDetected\<close> when it is not \<open>null\<close>: the candidate and the state
  (the display name is the concatenation of two fields of the candidate).\<close>

record note_event =
  detected :: candidate
  lifecycle :: note_state

text \<open>The two callbacks of one tick: the volume level and the note event (\<open>None\<close> is \<open>null\<close>).\<close>

record tick_output =
  volume :: real
  noteEvent :: "note_event option"

definition initial :: detector where
  "initial = \<lparr> isDetecting = False, previousSpectrum = None, spectralFlux = 0,
     fluxHistory = [], noteState = SILENCE, envelope = 0, peakEnvelope = 0,
     currentNote = None, noteStartTime = 0, framesSinceAttack = 0, framesSinceRelease = 0,
     harmonicConfidence = 0, cooldownFrames = 0 \<rparr>"

subsection \<open>frequencyToNote\<close>

definition frequencyToNote :: "real \<Rightarrow> note_info option" where
  "frequencyToNote f =
     (if f \<le> 0 then None
      else
        let halfSteps = 12 * log 2 (f / A4_FREQUENCY);
            midi = js_round (real_of_int A4_MIDI_NUMBER + halfSteps);
            noteIndex = js_rem midi 12;
            oct = midi div 12 - 1;
            exactFrequency = A4_FREQUENCY * 2 powr (real_of_int (midi - A4_MIDI_NUMBER) / 12);
            cts = js_round (1200 * log 2 (f / exactFrequency))
        in Some \<lparr> name = (if 0 \<le> noteIndex \<and> nat noteIndex < length NOTE_NAMES
                              then Some (NOTE_NAMES ! nat noteIndex) else None),
                    octave = oct, frequency = f, cents = cts, midiNumber = midi \<rparr>)"

subsection \<open>resetState, stop, clearRecentNotes\<close>

definition resetState :: "detector \<Rightarrow> detector" where
  "resetState s = s\<lparr> noteState := SILENCE, currentNote := None, envelope := 0,
     peakEnvelope := 0, spectralFlux := 0, previousSpectrum := None, fluxHistory := [],
     framesSinceAttack := 0, framesSinceRelease := 0, harmonicConfidence := 0 \<rparr>"

text \<open>\<open>stop\<close> also disconnects the microphone, closes the audio context and cancels the
  pending animation frame; these touch no field of the detector but \<open>isDetecting\<close>.\<close>

definition stop :: "detector \<Rightarrow> detector" where
  "stop s = resetState (s\<lparr> isDetecting := False \<rparr>)"

definition clearRecentNotes :: "detector \<Rightarrow> detector" where
  "clearRecentNotes s = resetState (s\<lparr> cooldownFrames := COOLDOWN_DURATION \<rparr>)"

subsection \<open>calculateSpectralFlux\<close>

definition norm_diff :: "8 word \<Rightarrow> 8 word \<Rightarrow> real" where
  "norm_diff c p = (real (unat c) - real (unat p)) / 255"

text \<open>The loop over \<open>i < spectrum.length\<close>.  A bin that the previous spectrum does not have
  reads \<open>undefined\<close>, the difference is \<open>NaN\<close> and \<open>diff > 0\<close> is false.\<close>

fun flux_sum :: "8 word list \<Rightarrow> 8 word list \<Rightarrow> real" where
  "flux_sum [] ps = 0"
| "flux_sum (c # cs) [] = 0"
| "flux_sum (c # cs) (p # ps) =
     (let diff = norm_diff c p in (if diff > 0 then diff * diff else 0) + flux_sum cs ps)"

definition push_flux :: "real \<Rightarrow> real list \<Rightarrow> real list" where
  "push_flux flux h = (let h' = h @ [flux] in if length h' > FLUX_HISTORY_SIZE then tl h' else h')"

definition calculateSpectralFlux :: "8 word list \<Rightarrow> detector \<Rightarrow> real \<times> detector" where
  "calculateSpectralFlux spectrum s =
     (case previousSpectrum s of
        None \<Rightarrow> (0, s\<lparr> previousSpectrum := Some spectrum \<rparr>)
      | Some prev \<Rightarrow>
          let flux = sqrt (flux_sum spectrum prev)
          in (flux, s\<lparr> fluxHistory := push_flux flux (fluxHistory s),
                        previousSpectrum := Some spectrum \<rparr>))"

subsection \<open>updateNoteState and emitNoteDetection\<close>

definition avgFlux :: "detector \<Rightarrow> real" where
  "avgFlux s = (if length (fluxHistory s) > 0
                then sum_list (fluxHistory s) / real (length (fluxHistory s)) else 0)"

definition adaptiveOnsetThreshold :: "detector \<Rightarrow> real" where
  "adaptiveOnsetThreshold s = max ONSET_THRESHOLD (avgFlux s * (3 / 2))"

definition isOnset :: "detector \<Rightarrow> bool" where
  "isOnset s = (spectralFlux s > adaptiveOnsetThreshold s)"

text \<open>\<open>detectedPitch && this.harmonicConfidence > this.MIN_HARMONIC_CONFIDENCE\<close>:
  \<open>null\<close> and \<open>0\<close> are falsy.  The result is the pitch when the test passes.\<close>

fun validPitch :: "real option \<Rightarrow> detector \<Rightarrow> real option" where
  "validPitch None s = None"
| "validPitch (Some p) s =
     (if p \<noteq> 0 \<and> harmonicConfidence s > MIN_HARMONIC_CONFIDENCE then Some p else None)"

definition capture :: "real \<Rightarrow> jsnum \<Rightarrow> detector \<Rightarrow> candidate" where
  "capture p yinConfidence s =
     \<lparr> noteInfo = frequencyToNote p, confidence = yinConfidence,
       capturedHarmonic = harmonicConfidence s \<rparr>"

text \<open>\<open>Math.abs(detectedPitch - this.currentNote.frequency) < 20\<close>; the frequency of a
  candidate captured from a \<open>null\<close> note information is \<open>undefined\<close> and the test is false.\<close>

definition near_current :: "real \<Rightarrow> candidate \<Rightarrow> bool" where
  "near_current p c = (case noteInfo c of None \<Rightarrow> False | Some ni \<Rightarrow> \<bar>p - frequency ni\<bar> < 20)"

definition updateNoteState :: "int \<Rightarrow> real option \<Rightarrow> jsnum \<Rightarrow> detector \<Rightarrow> detector" where
  "updateNoteState now detectedPitch yinConfidence s =
     (case noteState s of
        SILENCE \<Rightarrow>
          if isOnset s \<and> envelope s > ATTACK_THRESHOLD then
            let s1 = s\<lparr> framesSinceAttack := framesSinceAttack s + 1 \<rparr> in
            if framesSinceAttack s1 \<ge> ATTACK_HYSTERESIS_FRAMES
            then s1\<lparr> noteState := ATTACK, peakEnvelope := envelope s1,
                      noteStartTime := now, framesSinceAttack := 0 \<rparr>
            else s1
          else s\<lparr> framesSinceAttack := 0 \<rparr>
      | ATTACK \<Rightarrow>
          let s1 = (if envelope s > peakEnvelope s then s\<lparr> peakEnvelope := envelope s \<rparr> else s) in
          if envelope s1 < peakEnvelope s1 * (95 / 100) \<and> envelope s1 > RELEASE_THRESHOLD then
            let s2 = s1\<lparr> noteState := SUSTAIN \<rparr> in
            (case validPitch detectedPitch s2 of
               Some p \<Rightarrow> s2\<lparr> currentNote := Some (capture p yinConfidence s2) \<rparr>
             | None \<Rightarrow> s2)
          else s1
      | SUSTAIN \<Rightarrow>
          let s1 = (case validPitch detectedPitch s of
                      Some p \<Rightarrow>
                        (case currentNote s of
                           None \<Rightarrow> s\<lparr> currentNote := Some (capture p yinConfidence s) \<rparr>
                         | Some c \<Rightarrow>
                             if near_current p c
                             then s\<lparr> currentNote := Some (capture p yinConfidence s) \<rparr>
                             else s)
                    | None \<Rightarrow> s) in
          if envelope s1 < RELEASE_THRESHOLD then
            let s2 = s1\<lparr> framesSinceRelease := framesSinceRelease s1 + 1 \<rparr> in
            if framesSinceRelease s2 \<ge> RELEASE_HYSTERESIS_FRAMES
            then s2\<lparr> noteState := RELEASE, framesSinceRelease := 0 \<rparr>
            else s2
          else s1\<lparr> framesSinceRelease := 0 \<rparr>
      | RELEASE \<Rightarrow>
          let s1 = (if envelope s < RELEASE_THRESHOLD * (1 / 2) \<and>
                       now - noteStartTime s \<ge> MIN_NOTE_DURATION
                    then s\<lparr> noteState := SILENCE, currentNote := None \<rparr> else s) in
          if isOnset s1 \<and> envelope s1 > ATTACK_THRESHOLD
          then s1\<lparr> noteState := SILENCE \<rparr> else s1)"

definition emitNoteDetection :: "detector \<Rightarrow> note_event option" where
  "emitNoteDetection s =
     (case currentNote s of
        None \<Rightarrow> None
      | Some c \<Rightarrow>
          if noteState s = SUSTAIN \<or> noteState s = ATTACK
          then Some \<lparr> detected = c, lifecycle = noteState s \<rparr> else None)"

subsection \<open>yinPitch\<close>

text \<open>Step 1, the difference function: for every \<open>tau < halfSize\<close> the sum over \<open>i < halfSize\<close>
  of the squared differences \<open>buffer[i] - buffer[i + tau]\<close>; every index is in range.\<close>

definition differenceFunction :: "real list \<Rightarrow> real list" where
  "differenceFunction buffer =
     (let halfSize = length buffer div 2
      in map (\<lambda>tau. \<Sum>i\<leftarrow>[0..<halfSize].
                (buffer ! i - buffer ! (i + tau)) * (buffer ! i - buffer ! (i + tau)))
           [0..<halfSize])"

text \<open>Step 2, the loop \<open>for (tau = 1; tau < halfSize; tau++)\<close> with its running sum; the
  argument list holds the cells \<open>differenceFunction[tau..]\<close>.\<close>

fun cmndf_from :: "nat \<Rightarrow> real \<Rightarrow> real list \<Rightarrow> jsnum list" where
  "cmndf_from tau runningSum [] = []"
| "cmndf_from tau runningSum (d # ds) =
     js_div (Num d) (js_div (Num (runningSum + d)) (Num (real tau)))
       # cmndf_from (Suc tau) (runningSum + d) ds"

text \<open>\<open>cmndf[0] = 1\<close>; on an array of length zero the assignment is ignored.\<close>

definition cmndf_of :: "real list \<Rightarrow> jsnum list" where
  "cmndf_of df = (case df of [] \<Rightarrow> [] | d0 # ds \<Rightarrow> Num 1 # cmndf_from 1 0 ds)"

text \<open>A read of the typed array: outside its bounds the value is \<open>undefined\<close>, which
  every comparison treats as \<open>NaN\<close>.\<close>

definition cm_at :: "jsnum list \<Rightarrow> int \<Rightarrow> jsnum" where
  "cm_at cm tau = (if 0 \<le> tau \<and> tau < int (length cm) then cm ! nat tau else NaN)"

text \<open>Step 3, the inner loop: walk down to the local minimum.\<close>

function local_min :: "jsnum list \<Rightarrow> int \<Rightarrow> int \<Rightarrow> int" where
  "local_min cm maxTau tau =
     (if tau + 1 < maxTau \<and> js_lt (cm_at cm (tau + 1)) (cm_at cm tau)
      then local_min cm maxTau (tau + 1) else tau)"
  by pat_completeness auto
termination
  by (relation "measure (\<lambda>(cm, maxTau, tau). nat (maxTau - tau))") auto

text \<open>Step 3, the outer loop \<open>while (tau < maxTau)\<close>; the result is the value of \<open>tau\<close>
  after the loop.\<close>

function find_tau :: "jsnum list \<Rightarrow> int \<Rightarrow> int \<Rightarrow> int" where
  "find_tau cm maxTau tau =
     (if tau < maxTau
      then (if js_lt (cm_at cm tau) (Num YIN_THRESHOLD)
            then local_min cm maxTau tau
            else find_tau cm maxTau (tau + 1))
      else tau)"
  by pat_completeness auto
termination
  by (relation "measure (\<lambda>(cm, maxTau, tau). nat (maxTau - tau))") auto

declare local_min.simps [simp del]
declare find_tau.simps [simp del]

text \<open>Step 4, the parabolic interpolation, as written: no test of the divisor.\<close>

definition interpolate :: "jsnum list \<Rightarrow> int \<Rightarrow> jsnum" where
  "interpolate cm tau =
     (if tau > 0 \<and> tau < int (length cm) - 1 then
        let s0 = cm_at cm (tau - 1); s1 = cm_at cm tau; s2 = cm_at cm (tau + 1);
            adjustment = js_div (js_sub s2 s0)
                           (js_mul (Num 2) (js_sub (js_sub (js_mul (Num 2) s1) s2) s0))
        in js_add (Num (real_of_int tau)) adjustment
      else Num (real_of_int tau))"

record yin_result =
  yin_frequency :: jsnum
  yin_confidence :: jsnum
  yin_tau :: jsnum
  yin_cmndf :: jsnum

definition yinPitch :: "real list \<Rightarrow> real \<Rightarrow> yin_result option" where
  "yinPitch buffer rate =
     (let cm = cmndf_of (differenceFunction buffer);
          minTau = \<lfloor>rate / MAX_FREQUENCY\<rfloor>;
          maxTau = \<lfloor>rate / MIN_FREQUENCY\<rfloor>;
          tau = find_tau cm maxTau minTau
      in if tau \<ge> maxTau \<or> js_ge (cm_at cm tau) (Num YIN_THRESHOLD) then None
         else
           let betterTau = interpolate cm tau
           in Some \<lparr> yin_frequency = js_div (Num rate) betterTau,
                      yin_confidence = js_sub (Num 1) (cm_at cm tau),
                      yin_tau = betterTau,
                      yin_cmndf = cm_at cm tau \<rparr>)"

subsection \<open>calculateHarmonicConfidence\<close>

text \<open>\<open>spectrum[k] / 255.0\<close> for an index inside the array (the loop only reads such
  indices: \<open>binIndex\<close> is below the length, and not negative for a positive pitch and
  sample rate).\<close>

definition bin_mag :: "8 word list \<Rightarrow> int \<Rightarrow> real" where
  "bin_mag spectrum k = real (unat (spectrum ! nat k)) / 255"

text \<open>The loop \<open>for (h = 1; h <= 5; h++)\<close> with its two \<open>break\<close>s; the list holds the values
  of \<open>h\<close> still to come, the pair the accumulators \<open>harmonicScore\<close> and \<open>totalWeight\<close>.\<close>

fun harmonic_loop ::
  "8 word list \<Rightarrow> real \<Rightarrow> real \<Rightarrow> real \<Rightarrow> nat list \<Rightarrow> real \<times> real \<Rightarrow> real \<times> real" where
  "harmonic_loop spectrum fundamentalFreq rate binWidth [] acc = acc"
| "harmonic_loop spectrum fundamentalFreq rate binWidth (h # hs) (harmonicScore, totalWeight) =
     (let harmonicFreq = fundamentalFreq * real h in
      if harmonicFreq > rate / 2 then (harmonicScore, totalWeight)
      else
        let binIndex = js_round (harmonicFreq / binWidth) in
        if binIndex \<ge> int (length spectrum) then (harmonicScore, totalWeight)
        else
          let magnitude = bin_mag spectrum binIndex;
              leftMag = (if binIndex > 0 then bin_mag spectrum (binIndex - 1) else 0);
              rightMag = (if binIndex < int (length spectrum) - 1
                          then bin_mag spectrum (binIndex + 1) else 0);
              peakMag = max (max magnitude leftMag) rightMag;
              weight = 1 / real h
          in harmonic_loop spectrum fundamentalFreq rate binWidth hs
               (harmonicScore + peakMag * weight, totalWeight + weight))"

definition calculateHarmonicConfidence :: "8 word list \<Rightarrow> real \<Rightarrow> real \<Rightarrow> nat \<Rightarrow> real" where
  "calculateHarmonicConfidence spectrum fundamentalFreq rate fftSize =
     (let binWidth = rate / real fftSize;
          (harmonicScore, totalWeight) =
             harmonic_loop spectrum fundamentalFreq rate binWidth [1, 2, 3, 4, 5] (0, 0)
      in if totalWeight > 0 then min 1 (harmonicScore / totalWeight) else 0)"

subsection \<open>detectPitch: one tick\<close>

text \<open>Steps 1 and 2: the smoothed envelope and the spectral flux.  They run on every tick,
  before the cooldown test.  \<open>bufferLength\<close> is \<open>analyser.fftSize\<close>, which \<open>start\<close> sets to
  4096 and which is never 0; the properties below that depend on the value of the
  envelope are stated for frames with a time-domain buffer that is not empty.\<close>

definition instantEnvelope :: "real list \<Rightarrow> real" where
  "instantEnvelope buf = sqrt ((\<Sum>x\<leftarrow>buf. x * x) / real (length buf))"

definition sense :: "frame \<Rightarrow> detector \<Rightarrow> detector" where
  "sense f s =
     (let s1 = s\<lparr> envelope := envelopeSmoothing * instantEnvelope (timeBuffer f)
                                + (1 - envelopeSmoothing) * envelope s \<rparr>;
          (flux, s2) = calculateSpectralFlux (freqBuffer f) s1
      in s2\<lparr> spectralFlux := flux \<rparr>)"

text \<open>Step 3: the pitch is kept only inside \<open>[MIN_FREQUENCY, MAX_FREQUENCY]\<close>; a \<open>NaN\<close>
  or infinite frequency fails the comparisons.\<close>

definition pitch_of :: "yin_result option \<Rightarrow> real option \<times> jsnum" where
  "pitch_of r =
     (case r of
        None \<Rightarrow> (None, Num 0)
      | Some y \<Rightarrow>
          (case yin_frequency y of
             Num fr \<Rightarrow> if fr \<ge> MIN_FREQUENCY \<and> fr \<le> MAX_FREQUENCY
                        then (Some fr, yin_confidence y) else (None, Num 0)
           | _ \<Rightarrow> (None, Num 0)))"

text \<open>Steps 3 to 6, the path taken when no cooldown is running.\<close>

definition analyse :: "frame \<Rightarrow> int \<Rightarrow> detector \<Rightarrow> detector" where
  "analyse f now s =
     (let (detectedPitch, yinConfidence) = pitch_of (yinPitch (timeBuffer f) (sampleRate f));
          hc = (case detectedPitch of
                  Some p \<Rightarrow> calculateHarmonicConfidence (freqBuffer f) p (sampleRate f)
                              (length (timeBuffer f))
                | None \<Rightarrow> 0)
      in updateNoteState now detectedPitch yinConfidence (s\<lparr> harmonicConfidence := hc \<rparr>))"

text \<open>The whole tick.  The result is \<open>None\<close> when the detector is not running (no callback is
  called), and the values passed to the two callbacks otherwise.\<close>

definition detectPitch :: "frame \<Rightarrow> int \<Rightarrow> detector \<Rightarrow> detector \<times> tick_output option" where
  "detectPitch f now s =
     (if \<not> isDetecting s then (s, None)
      else
        let s2 = sense f s;
            vol = min 100 (envelope s2 * 500)
        in if cooldownFrames s2 > 0
           then (s2\<lparr> cooldownFrames := cooldownFrames s2 - 1 \<rparr>,
                 Some \<lparr> volume = vol, noteEvent = None \<rparr>)
           else
             let s3 = analyse f now s2
             in (s3, Some \<lparr> volume = vol, noteEvent = emitNoteDetection s3 \<rparr>))"

subsection \<open>start\<close>

text \<open>The outcome of the promise returned by \<open>start\<close>: rejected with the error of the
  audio device, or resolved with \<open>{sampleRate, bufferSize}\<close> or with \<open>undefined\<close>.\<close>

datatype start_outcome = Rejected | Resolved "(real \<times> nat) option"

text \<open>\<open>getUserMedia\<close> either fails (\<open>None\<close>) or yields a stream, whose first frame the first
  call of \<open>detectPitch\<close> reads at once.\<close>

definition start :: "frame option \<Rightarrow> int \<Rightarrow> detector \<Rightarrow> detector \<times> start_outcome" where
  "start device now s =
     (if isDetecting s then (s, Resolved None)
      else
        (case device of
           None \<Rightarrow> (s, Rejected)
         | Some f \<Rightarrow>
             (fst (detectPitch f now (s\<lparr> isDetecting := True \<rparr>)),
              Resolved (Some (sampleRate f, FFT_SIZE)))))"

subsection \<open>Runs and reachable states\<close>

text \<open>A frame as the analyser delivers it: \<open>fftSize\<close> samples (never none), half as many
  spectrum bins, and a positive sample rate.\<close>

definition wf_frame :: "frame \<Rightarrow> bool" where
  "wf_frame f = (timeBuffer f \<noteq> [] \<and> length (freqBuffer f) = length (timeBuffer f) div 2
                 \<and> sampleRate f > 0)"

text \<open>The states an instance can be in: the constructor's state, and whatever the control
  operations and the ticks make of it.\<close>

inductive reachable :: "detector \<Rightarrow> bool" where
  r_init: "reachable initial"
| r_start: "reachable s \<Longrightarrow> wf_frame f \<Longrightarrow> reachable (fst (start (Some f) now s))"
| r_start_failed: "reachable s \<Longrightarrow> reachable (fst (start None now s))"
| r_tick: "reachable s \<Longrightarrow> wf_frame f \<Longrightarrow> reachable (fst (detectPitch f now s))"
| r_stop: "reachable s \<Longrightarrow> reachable (stop s)"
| r_cooldown: "reachable s \<Longrightarrow> reachable (clearRecentNotes s)"

text \<open>The fast retrigger: the second test of the RELEASE branch (a fresh onset with an
  envelope above the attack threshold) fires; and a tick that takes it.\<close>

definition retrigger :: "detector \<Rightarrow> bool" where
  "retrigger s = (noteState s = RELEASE \<and> isOnset s \<and> envelope s > ATTACK_THRESHOLD)"

definition retrigger_tick :: "frame \<Rightarrow> detector \<Rightarrow> bool" where
  "retrigger_tick f s = (isDetecting s \<and> cooldownFrames s = 0 \<and> retrigger (sense f s))"

text \<open>The states reached without ever taking the fast retrigger.\<close>

inductive reachable_unretriggered :: "detector \<Rightarrow> bool" where
  u_init: "reachable_unretriggered initial"
| u_start: "reachable_unretriggered s \<Longrightarrow> wf_frame f \<Longrightarrow>
            \<not> retrigger_tick f (s\<lparr> isDetecting := True \<rparr>) \<Longrightarrow>
            reachable_unretriggered (fst (start (Some f) now s))"
| u_start_failed: "reachable_unretriggered s \<Longrightarrow> reachable_unretriggered (fst (start None now s))"
| u_tick: "reachable_unretriggered s \<Longrightarrow> wf_frame f \<Longrightarrow> \<not> retrigger_tick f s \<Longrightarrow>
           reachable_unretriggered (fst (detectPitch f now s))"
| u_stop: "reachable_unretriggered s \<Longrightarrow> reachable_unretriggered (stop s)"
| u_cooldown: "reachable_unretriggered s \<Longrightarrow> reachable_unretriggered (clearRecentNotes s)"

text \<open>A stored candidate sits in SUSTAIN or RELEASE.\<close>

definition placed :: "detector \<Rightarrow> bool" where
  "placed s = (case currentNote s of None \<Rightarrow> True
               | Some c \<Rightarrow> noteState s = SUSTAIN \<or> noteState s = RELEASE)"

text \<open>A sequence of ticks: the state after each tick with what the tick emitted, and the
  state after the last one.\<close>

fun run_ticks :: "(frame \<times> int) list \<Rightarrow> detector \<Rightarrow> (detector \<times> tick_output option) list" where
  "run_ticks [] s = []"
| "run_ticks ((f, now) # fs) s = detectPitch f now s # run_ticks fs (fst (detectPitch f now s))"


text \<open>A tick ran and called \<open>onNoteDetected(null)\<close>.\<close>

definition absent :: "tick_output option \<Rightarrow> bool" where
  "absent out = (case out of None \<Rightarrow> False | Some r \<Rightarrow> noteEvent r = None)"


text \<open>A silent frame: a frame of the analyser such that, after steps 1 and 2, the smoothed
  envelope is below the attack threshold and the flux is below the adaptive onset
  threshold.\<close>

definition silent_tick :: "frame \<Rightarrow> detector \<Rightarrow> bool" where
  "silent_tick f s = (wf_frame f \<and> envelope (sense f s) < ATTACK_THRESHOLD \<and>
                      spectralFlux (sense f s) < adaptiveOnsetThreshold (sense f s))"

fun all_silent :: "(frame \<times> int) list \<Rightarrow> detector \<Rightarrow> bool" where
  "all_silent [] s = True"
| "all_silent ((f, now) # fs) s = (silent_tick f s \<and> all_silent fs (fst (detectPitch f now s)))"

text \<open>The stored candidate had a harmonic confidence above the minimum when it was captured.\<close>

definition gated :: "detector \<Rightarrow> bool" where
  "gated s = (case currentNote s of None \<Rightarrow> True
              | Some c \<Rightarrow> capturedHarmonic c > MIN_HARMONIC_CONFIDENCE)"

definition counters_ok :: "detector \<Rightarrow> bool" where
  "counters_ok s = (framesSinceAttack s < ATTACK_HYSTERESIS_FRAMES \<and>
                    framesSinceRelease s < RELEASE_HYSTERESIS_FRAMES \<and>
                    length (fluxHistory s) \<le> FLUX_HISTORY_SIZE)"

text \<open>The values a cell of \<open>cmndf\<close> can hold: a non-negative number or \<open>NaN\<close>.\<close>

definition cm_ok :: "jsnum \<Rightarrow> bool" where
  "cm_ok x = (case x of Num c \<Rightarrow> 0 \<le> c | NaN \<Rightarrow> True | _ \<Rightarrow> False)"

subsection \<open>The onset detector in the words of its description\<close>

text \<open>The normalized magnitude of a bin, the flux as the square root of the sum over all
  bins of the squared positive parts of the differences, and the mean of the history
  (0 when it is empty).\<close>

definition magnitude :: "8 word \<Rightarrow> real" where
  "magnitude w = real (unat w) / 255"

definition spec_flux :: "8 word list \<Rightarrow> 8 word list \<Rightarrow> real" where
  "spec_flux cur prev =
     sqrt (\<Sum>i<length cur. (max 0 (magnitude (cur ! i) - magnitude (prev ! i)))\<^sup>2)"

definition spec_mean :: "real list \<Rightarrow> real" where
  "spec_mean h = (if h = [] then 0 else sum_list h / real (length h))"

subsection \<open>Inputs used in the examples\<close>

definition running :: detector where
  "running = initial\<lparr> isDetecting := True \<rparr>"

text \<open>A state in SILENCE on a frame that qualifies as an onset, with \<open>n\<close> qualifying
  frames counted so far.\<close>

definition onset_state :: "nat \<Rightarrow> detector" where
  "onset_state n = running\<lparr> spectralFlux := 1, fluxHistory := [0, 1], envelope := 1 / 10,
                             framesSinceAttack := n \<rparr>"

text \<open>Time-domain buffers of ten samples: silence, and a square wave of period four
  samples (500 Hz at 2000 samples per second) of amplitude \<open>a\<close>.\<close>

definition zero10 :: "real list" where
  "zero10 = [0, 0, 0, 0, 0, 0, 0, 0, 0, 0]"

definition square4 :: "real list" where
  "square4 = [1, 1, -1, -1, 1, 1, -1, -1, 1, 1]"

definition tone :: "real \<Rightarrow> real list" where
  "tone a = map (\<lambda>x. a * x) square4"

text \<open>Spectra of five bins; from one to the next a single bin rises.\<close>

definition spec0 :: "8 word list" where "spec0 = [0, 0, 0, 0, 0]"
definition spec1 :: "8 word list" where "spec1 = [102, 0, 0, 0, 0]"
definition spec2 :: "8 word list" where "spec2 = [102, 153, 0, 0, 0]"
definition spec3 :: "8 word list" where "spec3 = [102, 153, 0, 255, 0]"

definition spec4 :: "8 word list" where "spec4 = [102, 153, 255, 255, 0]"

definition fr :: "real list \<Rightarrow> 8 word list \<Rightarrow> frame" where
  "fr tb sp = \<lparr> timeBuffer = tb, freqBuffer = sp, sampleRate = 2000 \<rparr>"

definition quiet :: frame where
  "quiet = fr zero10 spec0"

text \<open>48 samples of a wave of period 21 whose sample 46 is 1 instead of 0.\<close>

definition wave21 :: "real list" where
  "wave21 = [0, 15, 0, 0, -15, -30, -15, -15, 0, 0, 15, 30, 45, 60, 45, 45, 30, 30, 30, 30, 15,
             0, 15, 0, 0, -15, -30, -15, -15, 0, 0, 15, 30, 45, 60, 45, 45, 30, 30, 30, 30, 15,
             0, 15, 0, 0, 1, 0]"

text \<open>
  A session of eleven ticks, 16 ms apart, and the state after each of them: two silent
  frames, three frames with an onset (the spectrum rises, the envelope is above the attack
  threshold), a frame with a faint 500 Hz tone, and five frames of silence.
\<close>

definition trace1 :: detector where
  "trace1 = \<lparr> isDetecting = True, previousSpectrum = Some spec0, spectralFlux = 0,
     fluxHistory = [], noteState = SILENCE, envelope = 0, peakEnvelope = 0,
     currentNote = None,
     noteStartTime = 0, framesSinceAttack = 0, framesSinceRelease = 0,
     harmonicConfidence = 0, cooldownFrames = 0 \<rparr>"

definition trace2 :: detector where
  "trace2 = \<lparr> isDetecting = True, previousSpectrum = Some spec0, spectralFlux = 0,
     fluxHistory = [0], noteState = SILENCE, envelope = 0, peakEnvelope = 0,
     currentNote = None,
     noteStartTime = 0, framesSinceAttack = 0, framesSinceRelease = 0,
     harmonicConfidence = 0, cooldownFrames = 0 \<rparr>"

definition trace3 :: detector where
  "trace3 = \<lparr> isDetecting = True, previousSpectrum = Some spec1, spectralFlux = 2 / 5,
     fluxHistory = [0, 2 / 5], noteState = SILENCE, envelope = 411 / 10000, peakEnvelope = 0,
     currentNote = None,
     noteStartTime = 0, framesSinceAttack = 1, framesSinceRelease = 0,
     harmonicConfidence = 0, cooldownFrames = 0 \<rparr>"

definition trace4 :: detector where
  "trace4 = \<lparr> isDetecting = True, previousSpectrum = Some spec2, spectralFlux = 3 / 5,
     fluxHistory = [0, 2 / 5, 3 / 5], noteState = SILENCE, envelope = 2877 / 100000, peakEnvelope = 0,
     currentNote = None,
     noteStartTime = 0, framesSinceAttack = 2, framesSinceRelease = 0,
     harmonicConfidence = 0, cooldownFrames = 0 \<rparr>"

definition trace5 :: detector where
  "trace5 = \<lparr> isDetecting = True, previousSpectrum = Some spec3, spectralFlux = 1,
     fluxHistory = [0, 2 / 5, 3 / 5, 1], noteState = ATTACK, envelope = 20139 / 1000000, peakEnvelope = 20139 / 1000000,
     currentNote = None,
     noteStartTime = 64, framesSinceAttack = 0, framesSinceRelease = 0,
     harmonicConfidence = 0, cooldownFrames = 0 \<rparr>"

definition trace6 :: detector where
  "trace6 = \<lparr> isDetecting = True, previousSpectrum = Some spec3, spectralFlux = 0,
     fluxHistory = [0, 2 / 5, 3 / 5, 1, 0], noteState = SUSTAIN, envelope = 141273 / 10000000, peakEnvelope = 20139 / 1000000,
     currentNote = Some \<lparr> noteInfo = frequencyToNote 500, confidence = Num 1, capturedHarmonic = 1 \<rparr>,
     noteStartTime = 64, framesSinceAttack = 0, framesSinceRelease = 0,
     harmonicConfidence = 1, cooldownFrames = 0 \<rparr>"

definition trace7 :: detector where
  "trace7 = \<lparr> isDetecting = True, previousSpectrum = Some spec3, spectralFlux = 0,
     fluxHistory = [2 / 5, 3 / 5, 1, 0, 0], noteState = SUSTAIN, envelope = 988911 / 100000000, peakEnvelope = 20139 / 1000000,
     currentNote = Some \<lparr> noteInfo = frequencyToNote 500, confidence = Num 1, capturedHarmonic = 1 \<rparr>,
     noteStartTime = 64, framesSinceAttack = 0, framesSinceRelease = 1,
     harmonicConfidence = 0, cooldownFrames = 0 \<rparr>"

definition trace8 :: detector where
  "trace8 = \<lparr> isDetecting = True, previousSpectrum = Some spec3, spectralFlux = 0,
     fluxHistory = [3 / 5, 1, 0, 0, 0], noteState = SUSTAIN, envelope = 6922377 / 1000000000, peakEnvelope = 20139 / 1000000,
     currentNote = Some \<lparr> noteInfo = frequencyToNote 500, confidence = Num 1, capturedHarmonic = 1 \<rparr>,
     noteStartTime = 64, framesSinceAttack = 0, framesSinceRelease = 2,
     harmonicConfidence = 0, cooldownFrames = 0 \<rparr>"

definition trace9 :: detector where
  "trace9 = \<lparr> isDetecting = True, previousSpectrum = Some spec3, spectralFlux = 0,
     fluxHistory = [1, 0, 0, 0, 0], noteState = SUSTAIN, envelope = 48456639 / 10000000000, peakEnvelope = 20139 / 1000000,
     currentNote = Some \<lparr> noteInfo = frequencyToNote 500, confidence = Num 1, capturedHarmonic = 1 \<rparr>,
     noteStartTime = 64, framesSinceAttack = 0, framesSinceRelease = 3,
     harmonicConfidence = 0, cooldownFrames = 0 \<rparr>"

definition trace10 :: detector where
  "trace10 = \<lparr> isDetecting = True, previousSpectrum = Some spec3, spectralFlux = 0,
     fluxHistory = [0, 0, 0, 0, 0], noteState = SUSTAIN, envelope = 339196473 / 100000000000, peakEnvelope = 20139 / 1000000,
     currentNote = Some \<lparr> noteInfo = frequencyToNote 500, confidence = Num 1, capturedHarmonic = 1 \<rparr>,
     noteStartTime = 64, framesSinceAttack = 0, framesSinceRelease = 4,
     harmonicConfidence = 0, cooldownFrames = 0 \<rparr>"

definition trace11 :: detector where
  "trace11 = \<lparr> isDetecting = True, previousSpectrum = Some spec3, spectralFlux = 0,
     fluxHistory = [0, 0, 0, 0, 0], noteState = RELEASE, envelope = 2374375311 / 1000000000000, peakEnvelope = 20139 / 1000000,
     currentNote = Some \<lparr> noteInfo = frequencyToNote 500, confidence = Num 1, capturedHarmonic = 1 \<rparr>,
     noteStartTime = 64, framesSinceAttack = 0, framesSinceRelease = 0,
     harmonicConfidence = 0, cooldownFrames = 0 \<rparr>"

text \<open>A twelfth tick, with an onset and a loud tone while in RELEASE.\<close>

definition trace12 :: detector where
  "trace12 = \<lparr> isDetecting = True, previousSpectrum = Some spec4, spectralFlux = 1,
     fluxHistory = [0, 0, 0, 0, 1], noteState = SILENCE,
     envelope = 427620627177 / 10000000000000, peakEnvelope = 20139 / 1000000,
     currentNote = Some \<lparr> noteInfo = frequencyToNote 500, confidence = Num 1, capturedHarmonic = 1 \<rparr>,
     noteStartTime = 64, framesSinceAttack = 0, framesSinceRelease = 0,
     harmonicConfidence = 1, cooldownFrames = 0 \<rparr>"

section \<open>Properties\<close>

subsection \<open>Auxiliary facts\<close>

lemma quarter_tone_note:
  "frequencyToNote (440 * 2 powr (1 / 24)) =
     Some \<lparr> name = Some ''A#'', octave = 4, frequency = 440 * 2 powr (1 / 24),
            cents = - 50, midiNumber = 70 \<rparr>"
proof -
  have h: "12 * log 2 (440 * 2 powr (1 / 24) / 440) = (1 / 2 :: real)" by simp
  have m: "js_round (real_of_int 69 + 1 / 2) = 70" by (simp add: js_round_def)
  have e: "log 2 (440 * 2 powr (1 / 24) / (440 * 2 powr (real_of_int (70 - 69) / 12))) = - (1 / 24)"
    by (simp add: log_divide flip: powr_diff)
  show ?thesis
    unfolding frequencyToNote_def Let_def A4_FREQUENCY_def A4_MIDI_NUMBER_def h m e
    by (simp add: js_round_def js_rem_def NOTE_NAMES_def)
qed

lemma js_lt_trans: "js_lt a b \<Longrightarrow> js_lt b c \<Longrightarrow> js_lt a c"
  by (cases a; cases b; cases c) auto

lemma local_min_below:
  "js_lt (cm_at cm tau) t \<Longrightarrow> js_lt (cm_at cm (local_min cm M tau)) t"
proof (induction cm M tau rule: local_min.induct)
  case (1 cm M tau)
  show ?case
  proof (cases "tau + 1 < M \<and> js_lt (cm_at cm (tau + 1)) (cm_at cm tau)")
    case True
    then have "js_lt (cm_at cm (tau + 1)) t" using "1.prems" js_lt_trans by blast
    then have "js_lt (cm_at cm (local_min cm M (tau + 1))) t" using True "1.IH" by blast
    then show ?thesis using True by (subst local_min.simps) simp
  next
    case False
    then have "local_min cm M tau = tau" by (subst local_min.simps) auto
    then show ?thesis using "1.prems" by simp
  qed
qed

lemma find_tau_below:
  "find_tau cm M tau < M \<Longrightarrow> js_lt (cm_at cm (find_tau cm M tau)) (Num YIN_THRESHOLD)"
proof (induction cm M tau rule: find_tau.induct)
  case (1 cm M tau)
  show ?case
  proof (cases "tau < M")
    case True
    show ?thesis
    proof (cases "js_lt (cm_at cm tau) (Num YIN_THRESHOLD)")
      case below: True
      then show ?thesis
        using True local_min_below [OF below] by (simp add: find_tau.simps [of cm M tau])
    next
      case False
      then show ?thesis
        using True "1.IH" "1.prems" by (simp add: find_tau.simps [of cm M tau])
    qed
  next
    case False
    then show ?thesis using "1.prems" by (simp add: find_tau.simps [of cm M tau])
  qed
qed

lemma cmndf_from_ok:
  "0 \<le> rs \<Longrightarrow> 0 < tau \<Longrightarrow> list_all (\<lambda>d. 0 \<le> d) ds \<Longrightarrow> list_all cm_ok (cmndf_from tau rs ds)"
proof (induction ds arbitrary: tau rs)
  case Nil
  then show ?case by simp
next
  case (Cons d ds)
  have d0: "0 \<le> d" using Cons.prems by simp
  have "cm_ok (js_div (Num d) (js_div (Num (rs + d)) (Num (real tau))))"
    using d0 Cons.prems(1,2) by (auto simp: cm_ok_def signed_inf_def)
  moreover have "list_all cm_ok (cmndf_from (Suc tau) (rs + d) ds)"
    using Cons.IH [of "rs + d" "Suc tau"] Cons.prems d0 by simp
  ultimately show ?case by simp
qed

lemma differenceFunction_nonneg: "list_all (\<lambda>d. 0 \<le> d) (differenceFunction buffer)"
  by (auto simp: differenceFunction_def Let_def list_all_iff intro!: sum_list_nonneg)

lemma cmndf_ok: "list_all cm_ok (cmndf_of (differenceFunction buffer))"
proof (cases "differenceFunction buffer")
  case Nil
  then show ?thesis by (simp add: cmndf_of_def)
next
  case (Cons d0 ds)
  have "list_all (\<lambda>d. 0 \<le> d) ds" using differenceFunction_nonneg [of buffer] Cons by simp
  then have "list_all cm_ok (cmndf_from 1 0 ds)" by (intro cmndf_from_ok) auto
  then show ?thesis using Cons by (simp add: cmndf_of_def cm_ok_def)
qed

lemma cm_at_ok: "list_all cm_ok cm \<Longrightarrow> cm_ok (cm_at cm tau)"
  by (auto simp: cm_at_def cm_ok_def list_all_length)

lemma onset_state_facts:
  "noteState (onset_state n) = SILENCE" "framesSinceAttack (onset_state n) = n"
  "isOnset (onset_state n)" "envelope (onset_state n) = 1 / 10"
  by (simp_all add: onset_state_def running_def initial_def isOnset_def
        adaptiveOnsetThreshold_def avgFlux_def ONSET_THRESHOLD_def)

text \<open>What steps 1 and 2 leave alone, and the two paths of a tick.\<close>

lemma sense_fields:
  "currentNote (sense f s) = currentNote s" "noteState (sense f s) = noteState s"
  "framesSinceAttack (sense f s) = framesSinceAttack s"
  "framesSinceRelease (sense f s) = framesSinceRelease s"
  "cooldownFrames (sense f s) = cooldownFrames s" "isDetecting (sense f s) = isDetecting s"
  "peakEnvelope (sense f s) = peakEnvelope s" "noteStartTime (sense f s) = noteStartTime s"
  "harmonicConfidence (sense f s) = harmonicConfidence s"
  by (simp_all add: sense_def calculateSpectralFlux_def Let_def split: option.splits prod.splits)

lemma sense_history:
  "length (fluxHistory s) \<le> FLUX_HISTORY_SIZE \<Longrightarrow>
   length (fluxHistory (sense f s)) \<le> FLUX_HISTORY_SIZE"
  by (auto simp: sense_def calculateSpectralFlux_def push_flux_def Let_def split: option.splits)

lemma cooldown_tick:
  assumes "isDetecting s" "cooldownFrames s > 0"
  shows "detectPitch f now s =
           ((sense f s)\<lparr> cooldownFrames := cooldownFrames s - 1 \<rparr>,
            Some \<lparr> volume = min 100 (envelope (sense f s) * 500), noteEvent = None \<rparr>)"
  using assms by (simp add: detectPitch_def Let_def sense_fields)

lemma normal_tick:
  assumes "isDetecting s" "cooldownFrames s = 0"
  shows "detectPitch f now s =
           (analyse f now (sense f s),
            Some \<lparr> volume = min 100 (envelope (sense f s) * 500),
                   noteEvent = emitNoteDetection (analyse f now (sense f s)) \<rparr>)"
  using assms by (simp add: detectPitch_def Let_def sense_fields)

lemma update_keeps_running: "isDetecting (updateNoteState now p c s) = isDetecting s"
  by (cases "noteState s") (auto simp: updateNoteState_def Let_def split: option.splits)

lemma analyse_keeps_running: "isDetecting (analyse f now s) = isDetecting s"
  by (simp add: analyse_def Let_def update_keeps_running split: prod.splits)

lemma tick_keeps_running: "isDetecting (fst (detectPitch f now s)) = isDetecting s"
  by (simp add: detectPitch_def Let_def analyse_keeps_running sense_fields)



text \<open>Silent frames in SILENCE.\<close>

lemma silent_update:
  assumes "noteState s = SILENCE" "\<not> (isOnset s \<and> envelope s > ATTACK_THRESHOLD)"
  shows "noteState (updateNoteState now p c s) = SILENCE"
  using assms by (auto simp: updateNoteState_def)

lemma silent_analyse:
  assumes "noteState s = SILENCE" "envelope s < ATTACK_THRESHOLD"
  shows "noteState (analyse f now s) = SILENCE"
proof -
  obtain dp yc where p: "pitch_of (yinPitch (timeBuffer f) (sampleRate f)) = (dp, yc)"
    by (cases "pitch_of (yinPitch (timeBuffer f) (sampleRate f))") blast
  show ?thesis unfolding analyse_def Let_def p using assms
    by (simp add: silent_update)
qed

lemma emit_silence: "noteState s = SILENCE \<Longrightarrow> emitNoteDetection s = None"
  by (simp add: emitNoteDetection_def split: option.splits)

lemma silent_step:
  assumes "isDetecting s" "noteState s = SILENCE" "silent_tick f s"
  shows "noteState (fst (detectPitch f now s)) = SILENCE \<and> absent (snd (detectPitch f now s))"
proof (cases "cooldownFrames s > 0")
  case True
  then show ?thesis using assms by (simp add: cooldown_tick absent_def sense_fields)
next
  case False
  then have z: "cooldownFrames s = 0" by simp
  have "noteState (analyse f now (sense f s)) = SILENCE"
    using assms by (intro silent_analyse) (simp_all add: sense_fields silent_tick_def)
  then show ?thesis using assms z by (simp add: normal_tick absent_def emit_silence)
qed

text \<open>The code's flux loop against the sum of the description.\<close>

lemma positive_part_square:
  "(let diff = norm_diff c p in if diff > 0 then diff * diff else 0) =
   (max 0 (magnitude c - magnitude p))\<^sup>2"
  by (simp add: norm_diff_def magnitude_def Let_def power2_eq_square diff_divide_distrib max_def)

lemma flux_sum_eq:
  "length prev = length cur \<Longrightarrow>
   flux_sum cur prev = (\<Sum>i<length cur. (max 0 (magnitude (cur ! i) - magnitude (prev ! i)))\<^sup>2)"
proof (induction cur prev rule: list_induct2')
  case (4 c cs p ps)
  then have "flux_sum cs ps =
      (\<Sum>i<length cs. (max 0 (magnitude (cs ! i) - magnitude (ps ! i)))\<^sup>2)"
    by simp
  moreover have "flux_sum (c # cs) (p # ps) =
      (max 0 (magnitude c - magnitude p))\<^sup>2 + flux_sum cs ps"
    using positive_part_square [of c p] by (simp add: Let_def)
  ultimately show ?case
    by (simp add: sum.lessThan_Suc_shift del: sum.lessThan_Suc)
qed simp_all

text \<open>Invariants of the reachable states.\<close>

lemma validPitch_passed:
  "validPitch p s = Some x \<Longrightarrow> harmonicConfidence s > MIN_HARMONIC_CONFIDENCE"
  by (cases p) (auto split: if_splits)

lemma gated_update: "gated s \<Longrightarrow> gated (updateNoteState now p c s)"
  by (cases "noteState s")
     (auto simp: gated_def updateNoteState_def Let_def capture_def
           split: option.splits if_splits dest: validPitch_passed)

lemma counters_update: "counters_ok s \<Longrightarrow> counters_ok (updateNoteState now p c s)"
  by (cases "noteState s")
     (auto simp: counters_ok_def updateNoteState_def Let_def constants
           split: option.splits if_splits)

lemma gated_analyse: "gated s \<Longrightarrow> gated (analyse f now s)"
proof -
  assume g: "gated s"
  obtain dp yc where p: "pitch_of (yinPitch (timeBuffer f) (sampleRate f)) = (dp, yc)"
    by (cases "pitch_of (yinPitch (timeBuffer f) (sampleRate f))") blast
  have "gated (s\<lparr>harmonicConfidence := h\<rparr>)" for h using g by (simp add: gated_def)
  then show ?thesis unfolding analyse_def Let_def p by (simp add: gated_update)
qed

lemma counters_analyse: "counters_ok s \<Longrightarrow> counters_ok (analyse f now s)"
proof -
  assume g: "counters_ok s"
  obtain dp yc where p: "pitch_of (yinPitch (timeBuffer f) (sampleRate f)) = (dp, yc)"
    by (cases "pitch_of (yinPitch (timeBuffer f) (sampleRate f))") blast
  have "counters_ok (s\<lparr>harmonicConfidence := h\<rparr>)" for h using g by (simp add: counters_ok_def)
  then show ?thesis unfolding analyse_def Let_def p by (simp add: counters_update)
qed

lemma gated_tick: "gated s \<Longrightarrow> gated (fst (detectPitch f now s))"
proof -
  assume g: "gated s"
  have g2: "gated (sense f s)" using g by (simp add: gated_def sense_fields)
  have g3: "gated (analyse f now (sense f s))" by (rule gated_analyse [OF g2])
  have g4: "gated (sense f s\<lparr>cooldownFrames := n\<rparr>)" for n using g2 by (simp add: gated_def)
  show ?thesis using g g3 g4 by (simp add: detectPitch_def Let_def)
qed

lemma counters_tick: "counters_ok s \<Longrightarrow> counters_ok (fst (detectPitch f now s))"
proof -
  assume g: "counters_ok s"
  have g2: "counters_ok (sense f s)"
    using g sense_history [of s f] by (simp add: counters_ok_def sense_fields)
  have g3: "counters_ok (analyse f now (sense f s))" by (rule counters_analyse [OF g2])
  have g4: "counters_ok (sense f s\<lparr>cooldownFrames := n\<rparr>)" for n
    using g2 by (simp add: counters_ok_def)
  show ?thesis using g g3 g4 by (simp add: detectPitch_def Let_def)
qed

lemma reachable_invariants: "reachable s \<Longrightarrow> gated s \<and> counters_ok s"
proof (induction rule: reachable.induct)
  case r_init
  then show ?case by (simp add: gated_def counters_ok_def initial_def constants)
next
  case (r_start s f now)
  have "gated (s\<lparr>isDetecting := True\<rparr>)" "counters_ok (s\<lparr>isDetecting := True\<rparr>)"
    using r_start.IH by (simp_all add: gated_def counters_ok_def)
  then show ?case using r_start.IH gated_tick counters_tick by (auto simp: start_def)
next
  case (r_start_failed s now)
  then show ?case by (simp add: start_def)
next
  case (r_tick s f now)
  then show ?case using gated_tick counters_tick by blast
next
  case (r_stop s)
  then show ?case by (simp add: gated_def counters_ok_def stop_def resetState_def constants)
next
  case (r_cooldown s)
  then show ?case
    by (simp add: gated_def counters_ok_def clearRecentNotes_def resetState_def constants)
qed

text \<open>Without the fast retrigger, a candidate is stored only in SUSTAIN and RELEASE.\<close>

lemma unretriggered_reachable: "reachable_unretriggered s \<Longrightarrow> reachable s"
  by (induction rule: reachable_unretriggered.induct) (auto intro: reachable.intros)

lemma placed_update: "placed s \<Longrightarrow> \<not> retrigger s \<Longrightarrow> placed (updateNoteState now p c s)"
  by (cases "noteState s")
     (auto simp: placed_def retrigger_def updateNoteState_def Let_def isOnset_def
                 adaptiveOnsetThreshold_def avgFlux_def
           split: option.splits if_splits)

lemma placed_analyse: "placed s \<Longrightarrow> \<not> retrigger s \<Longrightarrow> placed (analyse f now s)"
proof -
  assume g: "placed s" and n: "\<not> retrigger s"
  obtain dp yc where p: "pitch_of (yinPitch (timeBuffer f) (sampleRate f)) = (dp, yc)"
    by (cases "pitch_of (yinPitch (timeBuffer f) (sampleRate f))") blast
  have "placed (s\<lparr>harmonicConfidence := h\<rparr>)" "\<not> retrigger (s\<lparr>harmonicConfidence := h\<rparr>)" for h
    using g n by (auto simp: placed_def retrigger_def isOnset_def adaptiveOnsetThreshold_def
          avgFlux_def split: option.splits)
  then show ?thesis unfolding analyse_def Let_def p by (simp add: placed_update)
qed

lemma placed_tick: "placed s \<Longrightarrow> \<not> retrigger_tick f s \<Longrightarrow> placed (fst (detectPitch f now s))"
proof -
  assume g: "placed s" and n: "\<not> retrigger_tick f s"
  have g2: "placed (sense f s)"
    using g by (auto simp: placed_def sense_fields split: option.splits)
  have g4: "placed (sense f s\<lparr>cooldownFrames := k\<rparr>)" for k
    using g2 by (auto simp: placed_def split: option.splits)
  show ?thesis
  proof (cases "isDetecting s \<and> cooldownFrames s = 0")
    case True
    then have "\<not> retrigger (sense f s)" using n by (simp add: retrigger_tick_def)
    then have "placed (analyse f now (sense f s))" by (rule placed_analyse [OF g2])
    then show ?thesis using True by (simp add: normal_tick)
  next
    case False
    then show ?thesis using g g4 by (auto simp: detectPitch_def Let_def sense_fields)
  qed
qed

lemma unretriggered_placed: "reachable_unretriggered s \<Longrightarrow> placed s"
proof (induction rule: reachable_unretriggered.induct)
  case u_init
  then show ?case by (simp add: placed_def initial_def)
next
  case (u_start s f now)
  have "placed (s\<lparr>isDetecting := True\<rparr>)"
    using u_start.IH by (auto simp: placed_def split: option.splits)
  then show ?case using u_start.IH u_start.hyps(3) placed_tick by (auto simp: start_def)
next
  case (u_start_failed s now)
  then show ?case by (simp add: start_def)
next
  case (u_tick s f now)
  then show ?case using placed_tick by blast
next
  case (u_stop s)
  then show ?case by (simp add: placed_def stop_def resetState_def)
next
  case (u_cooldown s)
  then show ?case by (simp add: placed_def clearRecentNotes_def resetState_def)
qed

lemma no_retrigger_outside_release: "noteState s \<noteq> RELEASE \<Longrightarrow> \<not> retrigger_tick f s"
  by (simp add: retrigger_tick_def retrigger_def sense_fields)

text \<open>The values of the example inputs.\<close>

lemma env_zero: "instantEnvelope zero10 = 0"
  by (simp add: instantEnvelope_def zero10_def)

lemma env_tone: "instantEnvelope (tone a) = \<bar>a\<bar>"
proof -
  have "(\<Sum>x\<leftarrow>tone a. x * x) / real (length (tone a)) = a * a"
    by (simp add: tone_def square4_def)
  then show ?thesis by (simp add: instantEnvelope_def)
qed

lemma buffer_lengths: "length (tone a) = 10" "length zero10 = 10"
  by (simp_all add: tone_def square4_def zero10_def)

lemma yin_zero: "yinPitch zero10 2000 = None"
  unfolding zero10_def by code_simp

lemma square4_pitch:
  "yinPitch square4 2000 =
     Some \<lparr> yin_frequency = Num 500, yin_confidence = Num 1, yin_tau = Num 4, yin_cmndf = Num 0 \<rparr>"
  by code_simp

lemma yin_loud:
  "yinPitch (tone (137 / 1000)) 2000 =
     Some \<lparr> yin_frequency = Num 500, yin_confidence = Num 1, yin_tau = Num 4, yin_cmndf = Num 0 \<rparr>"
  unfolding tone_def by code_simp

lemma yin_faint:
  "yinPitch (tone (1 / 10000)) 2000 =
     Some \<lparr> yin_frequency = Num 500, yin_confidence = Num 1, yin_tau = Num 4, yin_cmndf = Num 0 \<rparr>"
  unfolding tone_def by code_simp

lemma flux00: "sqrt (flux_sum spec0 spec0) = 0"
  by (simp add: spec0_def norm_diff_def)

lemma flux01: "sqrt (flux_sum spec1 spec0) = 2 / 5"
  by (rule real_sqrt_unique) (simp_all add: spec0_def spec1_def norm_diff_def power2_eq_square)

lemma flux12: "sqrt (flux_sum spec2 spec1) = 3 / 5"
  by (rule real_sqrt_unique) (simp_all add: spec2_def spec1_def norm_diff_def power2_eq_square)

lemma flux23: "sqrt (flux_sum spec3 spec2) = 1"
  by (rule real_sqrt_unique) (simp_all add: spec2_def spec3_def norm_diff_def power2_eq_square)

lemma flux33: "sqrt (flux_sum spec3 spec3) = 0"
  by (simp add: spec3_def norm_diff_def)

lemma harmonic_spec1: "calculateHarmonicConfidence spec1 500 2000 10 = 0"
  by (simp add: calculateHarmonicConfidence_def spec1_def js_round_def bin_mag_def)

lemma harmonic_spec3: "calculateHarmonicConfidence spec3 500 2000 10 = 1"
  by (simp add: calculateHarmonicConfidence_def spec3_def js_round_def bin_mag_def)

lemma flux34: "sqrt (flux_sum spec4 spec3) = 1"
  by (rule real_sqrt_unique) (simp_all add: spec4_def spec3_def norm_diff_def power2_eq_square)

lemma harmonic_spec4: "calculateHarmonicConfidence spec4 500 2000 10 = 1"
  by (simp add: calculateHarmonicConfidence_def spec4_def js_round_def bin_mag_def)

lemma wf_spec4: "wf_frame (fr (tone a) spec4)"
  by (simp add: wf_frame_def fr_def tone_def square4_def spec4_def)

lemmas tick_defs = detectPitch_def sense_def calculateSpectralFlux_def push_flux_def Let_def
  analyse_def pitch_of_def updateNoteState_def isOnset_def adaptiveOnsetThreshold_def avgFlux_def
  capture_def fr_def constants

lemmas tick_values = env_zero env_tone yin_zero yin_loud yin_faint
  flux00 flux01 flux12 flux23 flux33 harmonic_spec1 harmonic_spec3 buffer_lengths

lemma wf_frames:
  "wf_frame (fr zero10 spec0)" "wf_frame (fr (tone a) spec1)" "wf_frame (fr zero10 spec2)"
  "wf_frame (fr zero10 spec3)" "wf_frame (fr (tone a) spec3)"
  by (simp_all add: wf_frame_def fr_def tone_def square4_def zero10_def
        spec0_def spec1_def spec2_def spec3_def)

lemma wf_quiet: "wf_frame quiet"
  by (simp add: quiet_def wf_frames)

lemma first_tick: "fst (detectPitch quiet 0 running) = trace1"
  by (simp add: quiet_def running_def initial_def trace1_def tick_defs tick_values)

lemma step1: "fst (start (Some quiet) 0 initial) = trace1"
  by (simp add: quiet_def start_def initial_def trace1_def tick_defs tick_values)

lemma step2: "fst (detectPitch (quiet) 16 trace1) = trace2"
  by (simp add: quiet_def trace1_def trace2_def tick_defs tick_values)

lemma step3: "fst (detectPitch (fr (tone (137 / 1000)) spec1) 32 trace2) = trace3"
  by (simp add: quiet_def trace2_def trace3_def tick_defs tick_values)

lemma step4: "fst (detectPitch (fr zero10 spec2) 48 trace3) = trace4"
  by (simp add: quiet_def trace3_def trace4_def tick_defs tick_values)

lemma step5: "fst (detectPitch (fr zero10 spec3) 64 trace4) = trace5"
  by (simp add: quiet_def trace4_def trace5_def tick_defs tick_values)

lemma step6: "fst (detectPitch (fr (tone (1 / 10000)) spec3) 80 trace5) = trace6"
  by (simp add: quiet_def trace5_def trace6_def tick_defs tick_values)

lemma step7: "fst (detectPitch (fr zero10 spec3) 96 trace6) = trace7"
  by (simp add: quiet_def trace6_def trace7_def tick_defs tick_values)

lemma step8: "fst (detectPitch (fr zero10 spec3) 112 trace7) = trace8"
  by (simp add: quiet_def trace7_def trace8_def tick_defs tick_values)

lemma step9: "fst (detectPitch (fr zero10 spec3) 128 trace8) = trace9"
  by (simp add: quiet_def trace8_def trace9_def tick_defs tick_values)

lemma step10: "fst (detectPitch (fr zero10 spec3) 144 trace9) = trace10"
  by (simp add: quiet_def trace9_def trace10_def tick_defs tick_values)

lemma step11: "fst (detectPitch (fr zero10 spec3) 160 trace10) = trace11"
  by (simp add: quiet_def trace10_def trace11_def tick_defs tick_values)

lemma step12: "fst (detectPitch (fr (tone (137 / 1000)) spec4) 176 trace11) = trace12"
  by (simp add: trace11_def trace12_def tick_defs tick_values flux34 harmonic_spec4)

lemma retrigger12: "retrigger_tick (fr (tone (137 / 1000)) spec4) trace11"
  by (simp add: retrigger_tick_def retrigger_def trace11_def sense_def calculateSpectralFlux_def
        push_flux_def Let_def fr_def env_tone flux34 isOnset_def adaptiveOnsetThreshold_def
        avgFlux_def constants)

lemma unretriggered_trace6: "reachable_unretriggered trace6"
proof -
  have n: "\<not> retrigger_tick f (initial\<lparr> isDetecting := True \<rparr>)" for f
    by (rule no_retrigger_outside_release) (simp add: initial_def)
  have "reachable_unretriggered trace1"
    using u_start [OF u_init wf_quiet n, of 0] by (simp only: step1)
  then have "reachable_unretriggered trace2"
    using u_tick [OF _ wf_quiet no_retrigger_outside_release, of trace1 16]
    by (simp add: step2) (simp add: trace1_def)
  then have "reachable_unretriggered trace3"
    using u_tick [OF _ wf_frames(2) no_retrigger_outside_release, of trace2 "137 / 1000" 32]
    by (simp add: step3) (simp add: trace2_def)
  then have "reachable_unretriggered trace4"
    using u_tick [OF _ wf_frames(3) no_retrigger_outside_release, of trace3 48]
    by (simp add: step4) (simp add: trace3_def)
  then have "reachable_unretriggered trace5"
    using u_tick [OF _ wf_frames(4) no_retrigger_outside_release, of trace4 64]
    by (simp add: step5) (simp add: trace4_def)
  then show "reachable_unretriggered trace6"
    using u_tick [OF _ wf_frames(5) no_retrigger_outside_release, of trace5 "1 / 10000" 80]
    by (simp add: step6) (simp add: trace5_def)
qed

lemma unretriggered_trace11: "reachable_unretriggered trace11"
proof -
  have "reachable_unretriggered trace7"
    using u_tick [OF unretriggered_trace6 wf_frames(4) no_retrigger_outside_release, of 96]
    by (simp add: step7) (simp add: trace6_def)
  then have "reachable_unretriggered trace8"
    using u_tick [OF _ wf_frames(4) no_retrigger_outside_release, of trace7 112]
    by (simp add: step8) (simp add: trace7_def)
  then have "reachable_unretriggered trace9"
    using u_tick [OF _ wf_frames(4) no_retrigger_outside_release, of trace8 128]
    by (simp add: step9) (simp add: trace8_def)
  then have "reachable_unretriggered trace10"
    using u_tick [OF _ wf_frames(4) no_retrigger_outside_release, of trace9 144]
    by (simp add: step10) (simp add: trace9_def)
  then show "reachable_unretriggered trace11"
    using u_tick [OF _ wf_frames(4) no_retrigger_outside_release, of trace10 160]
    by (simp add: step11) (simp add: trace10_def)
qed

lemma reachable_trace12: "reachable trace12"
  using r_tick [OF unretriggered_reachable [OF unretriggered_trace11] wf_spec4, of "137 / 1000" 176]
  by (simp only: step12)

subsection \<open>stop\<close>

text \<open>
  C1 (as amended).  \<open>stop\<close> cannot fail, a second \<open>stop\<close> changes nothing, and after it the
  detector is not running, the flux history is empty, the previous spectrum is cleared,
  envelope, peak, flux and harmonic confidence are 0, the state is SILENCE, there is no
  candidate and both hysteresis counters are 0.  The cooldown countdown is not part of the
  reset: \<open>stop\<close> leaves it as it was.
\<close>

theorem C1_stop_idempotent_reset:
  "stop (stop s) = stop s \<and>
   isDetecting (stop s) = False \<and> fluxHistory (stop s) = [] \<and>
   previousSpectrum (stop s) = None \<and> envelope (stop s) = 0 \<and> peakEnvelope (stop s) = 0 \<and>
   spectralFlux (stop s) = 0 \<and> harmonicConfidence (stop s) = 0 \<and>
   noteState (stop s) = SILENCE \<and> currentNote (stop s) = None \<and>
   framesSinceAttack (stop s) = 0 \<and> framesSinceRelease (stop s) = 0 \<and>
   cooldownFrames (stop s) = cooldownFrames s"
  by (simp add: stop_def resetState_def)

text \<open>The claim as stated fails: after \<open>triggerCooldown\<close> (\<open>clearRecentNotes\<close>) on a fresh
  detector, two calls of \<open>stop\<close> leave the countdown at 50, not at 0.\<close>

theorem C1_cooldown_survives_stop:
  "cooldownFrames (stop (stop (clearRecentNotes initial))) = 50 \<and>
   cooldownFrames (stop (stop (clearRecentNotes initial))) \<noteq> 0"
  by (simp add: stop_def resetState_def clearRecentNotes_def initial_def COOLDOWN_DURATION_def)

subsection \<open>frequencyToNote\<close>

text \<open>
  C4 (as amended).  \<open>frequencyToNote(440)\<close> is A, octave 4, 0 cents; the quarter tone
  \<open>440 * 2^(1/24)\<close> lies exactly between two semitones, \<open>Math.round\<close> takes the upper one,
  and the result is A#, octave 4, at -50 cents; for every \<open>f \<le> 0\<close> the result is \<open>null\<close>.
\<close>

theorem C4_frequencyToNote_values:
  "frequencyToNote 440 =
     Some \<lparr> name = Some ''A'', octave = 4, frequency = 440, cents = 0, midiNumber = 69 \<rparr> \<and>
   frequencyToNote (440 * 2 powr (1 / 24)) =
     Some \<lparr> name = Some ''A#'', octave = 4, frequency = 440 * 2 powr (1 / 24),
            cents = - 50, midiNumber = 70 \<rparr> \<and>
   (\<forall>f. f \<le> 0 \<longrightarrow> frequencyToNote f = None)"
proof -
  have "frequencyToNote 440 =
     Some \<lparr> name = Some ''A'', octave = 4, frequency = 440, cents = 0, midiNumber = 69 \<rparr>"
    by (simp add: frequencyToNote_def js_round_def js_rem_def NOTE_NAMES_def constants Let_def)
  moreover have "\<forall>f. f \<le> 0 \<longrightarrow> frequencyToNote f = None"
    by (simp add: frequencyToNote_def)
  ultimately show ?thesis using quarter_tone_note by blast
qed

theorem C4_frequencyToNote_values_witness:
  "frequencyToNote 0 = None \<and> frequencyToNote (- 1) = None \<and>
   map_option midiNumber (frequencyToNote 440) = Some 69"
  using C4_frequencyToNote_values by simp

text \<open>The claim as stated fails: the quarter tone above A4 is reported 50 cents below
  A#4, not 50 cents above A4.\<close>

theorem C4_quarter_tone_is_minus_50:
  "map_option cents (frequencyToNote (440 * 2 powr (1 / 24))) = Some (- 50) \<and>
   map_option cents (frequencyToNote (440 * 2 powr (1 / 24))) \<noteq> Some 50 \<and>
   map_option name (frequencyToNote (440 * 2 powr (1 / 24))) = Some (Some ''A#'')"
  by (simp add: quarter_tone_note)

subsection \<open>start\<close>

text \<open>
  C6 (as amended).  \<open>start\<close> on a detector that is already running does nothing: it warns,
  leaves the state as it is and resolves with \<open>undefined\<close>; it neither fails nor returns
  \<open>{sampleRate, bufferSize}\<close>.
\<close>

theorem C6_start_while_running:
  "isDetecting s \<Longrightarrow> start device now s = (s, Resolved None)"
  by (simp add: start_def)

theorem C6_start_while_running_witness:
  "isDetecting running \<and> start (Some quiet) 0 running = (running, Resolved None)"
  using C6_start_while_running [of running "Some quiet" 0]
  by (simp add: running_def initial_def)

text \<open>The claim as stated fails: a second \<open>start\<close>, right after a first one that
  succeeded, is not rejected.\<close>

theorem C6_second_start_not_rejected:
  "snd (start (Some quiet) 0 initial) = Resolved (Some (2000, 4096)) \<and>
   snd (start (Some quiet) 16 (fst (start (Some quiet) 0 initial))) = Resolved None \<and>
   snd (start (Some quiet) 16 (fst (start (Some quiet) 0 initial))) \<noteq> Rejected"
  by (simp add: step1) (simp add: start_def initial_def trace1_def quiet_def fr_def FFT_SIZE_def)

subsection \<open>The onset detector\<close>

text \<open>
  C7 (as amended).  On a tick with a previous spectrum of the same length, the spectral
  flux is the square root of the sum over all bins of the squared positive parts of the
  differences between the current and the previous normalized magnitudes, and it is
  appended to the history, whose oldest entry goes once there are five.  The first tick
  (no previous spectrum) yields the flux 0 and only records the spectrum: nothing is
  appended to the flux history.  The adaptive onset threshold is the larger of
  \<open>ONSET_THRESHOLD\<close> and one and a half times the mean of the history (0 when empty).
\<close>

theorem C7_spectral_flux:
  "(previousSpectrum s = None \<longrightarrow>
      spectralFlux (sense f s) = 0 \<and> fluxHistory (sense f s) = fluxHistory s \<and>
      previousSpectrum (sense f s) = Some (freqBuffer f))
   \<and> (\<forall>prev. previousSpectrum s = Some prev \<and> length prev = length (freqBuffer f) \<longrightarrow>
      spectralFlux (sense f s) = spec_flux (freqBuffer f) prev \<and>
      fluxHistory (sense f s) =
        (if length (fluxHistory s) < FLUX_HISTORY_SIZE
         then fluxHistory s @ [spec_flux (freqBuffer f) prev]
         else tl (fluxHistory s) @ [spec_flux (freqBuffer f) prev]) \<and>
      previousSpectrum (sense f s) = Some (freqBuffer f))
   \<and> adaptiveOnsetThreshold s = max ONSET_THRESHOLD (spec_mean (fluxHistory s) * (3 / 2))
   \<and> isOnset s = (spectralFlux s > max ONSET_THRESHOLD (spec_mean (fluxHistory s) * (3 / 2)))"
proof -
  have a: "previousSpectrum s = None \<longrightarrow>
      spectralFlux (sense f s) = 0 \<and> fluxHistory (sense f s) = fluxHistory s \<and>
      previousSpectrum (sense f s) = Some (freqBuffer f)"
    by (simp add: sense_def calculateSpectralFlux_def Let_def)
  have b: "spectralFlux (sense f s) = spec_flux (freqBuffer f) prev \<and>
      fluxHistory (sense f s) =
        (if length (fluxHistory s) < FLUX_HISTORY_SIZE
         then fluxHistory s @ [spec_flux (freqBuffer f) prev]
         else tl (fluxHistory s) @ [spec_flux (freqBuffer f) prev]) \<and>
      previousSpectrum (sense f s) = Some (freqBuffer f)"
    if p: "previousSpectrum s = Some prev" and l: "length prev = length (freqBuffer f)" for prev
  proof -
    have fl: "sqrt (flux_sum (freqBuffer f) prev) = spec_flux (freqBuffer f) prev"
      by (simp add: spec_flux_def flux_sum_eq [OF l])
    show ?thesis
      using p by (cases "fluxHistory s")
        (simp_all add: sense_def calculateSpectralFlux_def Let_def push_flux_def fl
           FLUX_HISTORY_SIZE_def)
  qed
  have c: "adaptiveOnsetThreshold s = max ONSET_THRESHOLD (spec_mean (fluxHistory s) * (3 / 2))"
    by (simp add: adaptiveOnsetThreshold_def avgFlux_def spec_mean_def)
  show ?thesis using a b c by (simp add: isOnset_def)
qed

theorem C7_spectral_flux_witness:
  "previousSpectrum running = None \<and>
   spectralFlux (sense quiet running) = 0 \<and> fluxHistory (sense quiet running) = [] \<and>
   previousSpectrum (sense quiet running) = Some spec0 \<and>
   spectralFlux (sense (fr zero10 spec1) (sense quiet running)) = spec_flux spec1 spec0 \<and>
   fluxHistory (sense (fr zero10 spec1) (sense quiet running)) = [spec_flux spec1 spec0] \<and>
   adaptiveOnsetThreshold (sense (fr zero10 spec1) (sense quiet running)) =
     max (3 / 10) (spec_flux spec1 spec0 * (3 / 2))"
proof -
  have q: "previousSpectrum running = None" "fluxHistory running = []"
    by (simp_all add: running_def initial_def)
  have 1: "spectralFlux (sense quiet running) = 0 \<and> fluxHistory (sense quiet running) = [] \<and>
     previousSpectrum (sense quiet running) = Some spec0"
    using C7_spectral_flux [of running quiet] q by (simp add: quiet_def fr_def)
  then have 2: "spectralFlux (sense (fr zero10 spec1) (sense quiet running)) = spec_flux spec1 spec0 \<and>
     fluxHistory (sense (fr zero10 spec1) (sense quiet running)) = [spec_flux spec1 spec0]"
    using C7_spectral_flux [of "sense quiet running" "fr zero10 spec1"]
    by (simp add: fr_def spec0_def spec1_def FLUX_HISTORY_SIZE_def)
  have "adaptiveOnsetThreshold (sense (fr zero10 spec1) (sense quiet running)) =
     max (3 / 10) (spec_flux spec1 spec0 * (3 / 2))"
    using C7_spectral_flux [of "sense (fr zero10 spec1) (sense quiet running)" quiet] 2
    by (simp add: spec_mean_def ONSET_THRESHOLD_def)
  with q 1 2 show ?thesis by simp
qed

text \<open>The claim as stated fails on the first tick: its flux 0 is not pushed, the history
  stays empty; after a second tick with flux 2/5 the history is \<open>[2/5]\<close>, not \<open>[0, 2/5]\<close>,
  and the threshold is 3/5 (no onset), where a history seeded with the first flux would
  give 3/10 (an onset).\<close>

theorem C7_first_flux_not_pushed:
  "spectralFlux (sense quiet running) = 0 \<and>
   fluxHistory (sense quiet running) \<noteq> fluxHistory running @ [spectralFlux (sense quiet running)] \<and>
   fluxHistory (sense (fr zero10 spec1) (sense quiet running)) = [2 / 5] \<and>
   fluxHistory (sense (fr zero10 spec1) (sense quiet running)) \<noteq> [0, 2 / 5] \<and>
   adaptiveOnsetThreshold (sense (fr zero10 spec1) (sense quiet running)) = 3 / 5 \<and>
   \<not> isOnset (sense (fr zero10 spec1) (sense quiet running)) \<and>
   max ONSET_THRESHOLD (spec_mean [0, 2 / 5] * (3 / 2)) < 2 / 5"
  by (simp add: sense_def calculateSpectralFlux_def Let_def running_def initial_def quiet_def
        fr_def push_flux_def flux01 FLUX_HISTORY_SIZE_def isOnset_def adaptiveOnsetThreshold_def
        avgFlux_def ONSET_THRESHOLD_def spec_mean_def)

subsection \<open>The cooldown\<close>




subsection \<open>The SILENCE state\<close>

text \<open>
  C8.  In SILENCE, a frame with an onset and an envelope above the attack threshold
  increments the attack counter, any other frame resets it to 0; the machine goes to
  ATTACK exactly when the incremented counter reaches \<open>ATTACK_HYSTERESIS_FRAMES\<close>, and
  then the counter is 0 again, the start time is the current time and the peak is the
  current envelope.
\<close>

theorem C8_silence_hysteresis:
  assumes "noteState s = SILENCE"
  shows "(isOnset s \<and> envelope s > ATTACK_THRESHOLD \<longrightarrow>
            framesSinceAttack s + 1 < ATTACK_HYSTERESIS_FRAMES \<longrightarrow>
              noteState (updateNoteState now p c s) = SILENCE \<and>
              framesSinceAttack (updateNoteState now p c s) = framesSinceAttack s + 1)
       \<and> (isOnset s \<and> envelope s > ATTACK_THRESHOLD \<longrightarrow>
            framesSinceAttack s + 1 \<ge> ATTACK_HYSTERESIS_FRAMES \<longrightarrow>
              noteState (updateNoteState now p c s) = ATTACK \<and>
              framesSinceAttack (updateNoteState now p c s) = 0 \<and>
              noteStartTime (updateNoteState now p c s) = now \<and>
              peakEnvelope (updateNoteState now p c s) = envelope s)
       \<and> (\<not> (isOnset s \<and> envelope s > ATTACK_THRESHOLD) \<longrightarrow>
              noteState (updateNoteState now p c s) = SILENCE \<and>
              framesSinceAttack (updateNoteState now p c s) = 0)
       \<and> (noteState (updateNoteState now p c s) = ATTACK \<longleftrightarrow>
              isOnset s \<and> envelope s > ATTACK_THRESHOLD \<and>
              framesSinceAttack s + 1 \<ge> ATTACK_HYSTERESIS_FRAMES)"
  using assms by (auto simp: updateNoteState_def Let_def)

theorem C8_silence_hysteresis_witness:
  "noteState (updateNoteState 7 None (Num 0) (onset_state 1)) = SILENCE \<and>
   framesSinceAttack (updateNoteState 7 None (Num 0) (onset_state 1)) = 2 \<and>
   noteState (updateNoteState 7 None (Num 0) (onset_state 2)) = ATTACK \<and>
   framesSinceAttack (updateNoteState 7 None (Num 0) (onset_state 2)) = 0 \<and>
   noteStartTime (updateNoteState 7 None (Num 0) (onset_state 2)) = 7 \<and>
   peakEnvelope (updateNoteState 7 None (Num 0) (onset_state 2)) = 1 / 10 \<and>
   noteState (updateNoteState 7 None (Num 0) ((onset_state 2)\<lparr> envelope := 0 \<rparr>)) = SILENCE \<and>
   framesSinceAttack (updateNoteState 7 None (Num 0) ((onset_state 2)\<lparr> envelope := 0 \<rparr>)) = 0"
  using C8_silence_hysteresis [of "onset_state 1" 7 None "Num 0"]
        C8_silence_hysteresis [of "onset_state 2" 7 None "Num 0"]
        C8_silence_hysteresis [of "(onset_state 2)\<lparr> envelope := 0 \<rparr>" 7 None "Num 0"]
  by (simp add: onset_state_facts ATTACK_HYSTERESIS_FRAMES_def ATTACK_THRESHOLD_def)

text \<open>
  C9.  From a running detector in SILENCE, along any sequence of silent frames (after
  steps 1 and 2 of the tick the envelope is below the attack threshold and the flux below
  the adaptive onset threshold), the state after every tick is SILENCE and every tick
  emits an absent note event.  The sequence is any finite prefix of the infinite one.
\<close>

theorem C9_silence_is_stable:
  assumes "isDetecting s" and "noteState s = SILENCE" and "all_silent fs s"
  shows "list_all (\<lambda>r. noteState (fst r) = SILENCE \<and> absent (snd r)) (run_ticks fs s)"
  using assms
proof (induction fs arbitrary: s)
  case Nil
  then show ?case by simp
next
  case (Cons a fs)
  obtain f now where a: "a = (f, now)" by (cases a)
  have st: "silent_tick f s" and rest: "all_silent fs (fst (detectPitch f now s))"
    using Cons.prems(3) by (simp_all add: a)
  note step = silent_step [OF Cons.prems(1,2) st, of now]
  have "isDetecting (fst (detectPitch f now s))"
    using Cons.prems(1) by (simp add: tick_keeps_running)
  from Cons.IH [OF this _ rest] step show ?case by (simp add: a)
qed

theorem C9_silence_is_stable_witness:
  "isDetecting running \<and> noteState running = SILENCE \<and>
   all_silent [(quiet, 0), (quiet, 16)] running \<and>
   list_all (\<lambda>r. noteState (fst r) = SILENCE \<and> absent (snd r))
     (run_ticks [(quiet, 0), (quiet, 16)] running)"
proof -
  have r: "isDetecting running" "noteState running = SILENCE"
    by (simp_all add: running_def initial_def)
  have q1: "silent_tick quiet running"
    using wf_quiet
    by (simp add: silent_tick_def quiet_def running_def initial_def sense_def
          calculateSpectralFlux_def Let_def fr_def env_zero adaptiveOnsetThreshold_def
          avgFlux_def constants)
  have q2: "silent_tick quiet trace1"
    using wf_quiet
    by (simp add: silent_tick_def quiet_def trace1_def sense_def calculateSpectralFlux_def
          push_flux_def Let_def fr_def env_zero flux00 adaptiveOnsetThreshold_def avgFlux_def
          constants)
  have s: "all_silent [(quiet, 0), (quiet, 16)] running"
    using q1 q2 by (simp add: first_tick)
  show ?thesis using C9_silence_is_stable [OF r s] r s by simp
qed

subsection \<open>The note candidate\<close>

text \<open>
  C3 (as amended).  In every reachable state a stored candidate had a harmonic confidence
  above \<open>MIN_HARMONIC_CONFIDENCE\<close> when it was captured.  In every state reached without
  the fast retrigger of the RELEASE branch, a candidate is stored only while the state is
  SUSTAIN or RELEASE: it is absent in SILENCE and in ATTACK, and a note event is emitted
  only in SUSTAIN.  Once stored, the candidate stays through SUSTAIN and into RELEASE, and
  through RELEASE as long as neither the duration test nor the fast retrigger fires; it
  is cleared when RELEASE ends through the duration test (envelope below half the release
  threshold, note at least \<open>MIN_NOTE_DURATION\<close> old), by \<open>stop\<close> and by \<open>triggerCooldown\<close>.
  Nothing is said about the candidate after a fast retrigger.
\<close>

theorem C3_candidate_invariant:
  "(reachable s \<longrightarrow>
      (\<forall>c. currentNote s = Some c \<longrightarrow> capturedHarmonic c > MIN_HARMONIC_CONFIDENCE))
   \<and> (reachable_unretriggered s \<longrightarrow>
      (\<forall>c. currentNote s = Some c \<longrightarrow> noteState s = SUSTAIN \<or> noteState s = RELEASE) \<and>
      (noteState s = SILENCE \<or> noteState s = ATTACK \<longrightarrow> currentNote s = None) \<and>
      (\<forall>e. emitNoteDetection s = Some e \<longrightarrow>
         noteState s = SUSTAIN \<and> currentNote s = Some (detected e)))
   \<and> (noteState s = SUSTAIN \<and> currentNote s \<noteq> None \<longrightarrow>
      currentNote (updateNoteState now p c s) \<noteq> None \<and>
      (noteState (updateNoteState now p c s) = SUSTAIN \<or>
       noteState (updateNoteState now p c s) = RELEASE))
   \<and> (noteState s = RELEASE \<and> \<not> retrigger s \<and>
       \<not> (envelope s < RELEASE_THRESHOLD * (1 / 2) \<and> now - noteStartTime s \<ge> MIN_NOTE_DURATION)
       \<longrightarrow> noteState (updateNoteState now p c s) = RELEASE \<and>
           currentNote (updateNoteState now p c s) = currentNote s)
   \<and> (noteState s = RELEASE \<and> envelope s < RELEASE_THRESHOLD * (1 / 2) \<and>
       now - noteStartTime s \<ge> MIN_NOTE_DURATION
       \<longrightarrow> noteState (updateNoteState now p c s) = SILENCE \<and>
           currentNote (updateNoteState now p c s) = None)
   \<and> currentNote (stop s) = None \<and> currentNote (clearRecentNotes s) = None"
proof -
  have g: "reachable s \<longrightarrow>
      (\<forall>c. currentNote s = Some c \<longrightarrow> capturedHarmonic c > MIN_HARMONIC_CONFIDENCE)"
    using reachable_invariants [of s] by (auto simp: gated_def split: option.splits)
  have u: "reachable_unretriggered s \<longrightarrow>
      (\<forall>c. currentNote s = Some c \<longrightarrow> noteState s = SUSTAIN \<or> noteState s = RELEASE) \<and>
      (noteState s = SILENCE \<or> noteState s = ATTACK \<longrightarrow> currentNote s = None) \<and>
      (\<forall>e. emitNoteDetection s = Some e \<longrightarrow>
         noteState s = SUSTAIN \<and> currentNote s = Some (detected e))"
  proof
    assume "reachable_unretriggered s"
    then have p: "placed s" by (rule unretriggered_placed)
    show "(\<forall>c. currentNote s = Some c \<longrightarrow> noteState s = SUSTAIN \<or> noteState s = RELEASE) \<and>
      (noteState s = SILENCE \<or> noteState s = ATTACK \<longrightarrow> currentNote s = None) \<and>
      (\<forall>e. emitNoteDetection s = Some e \<longrightarrow>
         noteState s = SUSTAIN \<and> currentNote s = Some (detected e))"
      using p by (auto simp: placed_def emitNoteDetection_def split: option.splits if_splits)
  qed
  have k: "noteState s = SUSTAIN \<and> currentNote s \<noteq> None \<longrightarrow>
      currentNote (updateNoteState now p c s) \<noteq> None \<and>
      (noteState (updateNoteState now p c s) = SUSTAIN \<or>
       noteState (updateNoteState now p c s) = RELEASE)"
    by (auto simp: updateNoteState_def Let_def split: option.splits)
  have r1: "noteState s = RELEASE \<and> \<not> retrigger s \<and>
       \<not> (envelope s < RELEASE_THRESHOLD * (1 / 2) \<and> now - noteStartTime s \<ge> MIN_NOTE_DURATION)
       \<longrightarrow> noteState (updateNoteState now p c s) = RELEASE \<and>
           currentNote (updateNoteState now p c s) = currentNote s"
    by (auto simp: updateNoteState_def Let_def retrigger_def)
  have r2: "noteState s = RELEASE \<and> envelope s < RELEASE_THRESHOLD * (1 / 2) \<and>
       now - noteStartTime s \<ge> MIN_NOTE_DURATION
       \<longrightarrow> noteState (updateNoteState now p c s) = SILENCE \<and>
           currentNote (updateNoteState now p c s) = None"
    by (auto simp: updateNoteState_def Let_def)
  have z: "currentNote (stop s) = None \<and> currentNote (clearRecentNotes s) = None"
    by (simp add: stop_def clearRecentNotes_def resetState_def)
  show ?thesis using g u k r1 r2 z by blast
qed

theorem C3_candidate_invariant_witness:
  "reachable trace6 \<and> reachable_unretriggered trace6 \<and> noteState trace6 = SUSTAIN \<and>
   map_option capturedHarmonic (currentNote trace6) = Some 1 \<and>
   (1 :: real) > MIN_HARMONIC_CONFIDENCE \<and>
   map_option lifecycle (emitNoteDetection trace6) = Some SUSTAIN \<and>
   currentNote (updateNoteState 96 None (Num 0) trace6) \<noteq> None \<and>
   reachable_unretriggered trace11 \<and> noteState trace11 = RELEASE \<and> \<not> retrigger trace11 \<and>
   currentNote (updateNoteState 100 None (Num 0) trace11) = currentNote trace11 \<and>
   currentNote (updateNoteState 176 None (Num 0) trace11) = None \<and>
   currentNote (stop trace6) = None"
proof -
  have r6: "reachable trace6" by (rule unretriggered_reachable [OF unretriggered_trace6])
  have n: "\<not> retrigger trace11"
    by (simp add: retrigger_def trace11_def constants)
  have e: "envelope trace11 < RELEASE_THRESHOLD * (1 / 2)" "noteStartTime trace11 = 64"
    by (simp_all add: trace11_def constants)
  show ?thesis
    using C3_candidate_invariant [of trace6 96 None "Num 0"]
          C3_candidate_invariant [of trace11 100 None "Num 0"]
          C3_candidate_invariant [of trace11 176 None "Num 0"]
          r6 unretriggered_trace6 unretriggered_trace11 n e
    by (simp add: MIN_NOTE_DURATION_def MIN_HARMONIC_CONFIDENCE_def)
      (simp add: trace6_def trace11_def emitNoteDetection_def)
qed

text \<open>The claim as stated fails twice.  After the eleven ticks of the example session
  the machine is in RELEASE and the candidate captured at the end of the attack is still
  stored.  A twelfth tick with an onset takes the fast retrigger: the machine is in SILENCE
  and the same candidate is still stored.\<close>

theorem C3_candidate_outside_attack_sustain:
  "reachable trace11 \<and> noteState trace11 = RELEASE \<and> currentNote trace11 \<noteq> None \<and>
   reachable trace12 \<and> noteState trace12 = SILENCE \<and> currentNote trace12 \<noteq> None \<and>
   currentNote trace12 = currentNote trace11"
  using unretriggered_reachable [OF unretriggered_trace11] reachable_trace12
  by (simp add: trace11_def trace12_def)

subsection \<open>yinPitch\<close>

text \<open>
  C10.  Whenever \<open>yinPitch\<close> returns a result, its confidence is a number in the interval
  \<open>(1 - YIN_THRESHOLD, 1]\<close>: the accepted cell of \<open>cmndf\<close> is below the threshold and not
  negative.
\<close>

theorem C10_confidence_range:
  assumes "yinPitch buffer rate = Some r"
  shows "\<exists>c. yin_confidence r = Num c \<and> 1 - YIN_THRESHOLD < c \<and> c \<le> 1"
proof -
  define cm where "cm = cmndf_of (differenceFunction buffer)"
  define M where "M = \<lfloor>rate / MIN_FREQUENCY\<rfloor>"
  define tau where "tau = find_tau cm M \<lfloor>rate / MAX_FREQUENCY\<rfloor>"
  from assms have lt: "tau < M" and conf: "yin_confidence r = js_sub (Num 1) (cm_at cm tau)"
    by (auto simp: yinPitch_def Let_def cm_def M_def tau_def split: if_splits)
  have "js_lt (cm_at cm tau) (Num YIN_THRESHOLD)"
    using find_tau_below lt unfolding tau_def by blast
  moreover have "cm_ok (cm_at cm tau)"
    unfolding cm_def by (rule cm_at_ok [OF cmndf_ok])
  ultimately obtain c where c: "cm_at cm tau = Num c" "0 \<le> c" "c < YIN_THRESHOLD"
    by (cases "cm_at cm tau") (auto simp: cm_ok_def)
  show ?thesis using conf c by (simp add: js_sub_def)
qed

theorem C10_confidence_range_witness:
  "yinPitch square4 2000 \<noteq> None \<and>
   (\<exists>c. yin_confidence (the (yinPitch square4 2000)) = Num c \<and> 1 - YIN_THRESHOLD < c \<and> c \<le> 1)"
  using C10_confidence_range [OF square4_pitch] by (simp add: square4_pitch)

text \<open>The interpolation step has no guard: wherever it runs on three numbers whose
  quadratic coefficient \<open>2 * s1 - s2 - s0\<close> is zero, the refined lag is \<open>NaN\<close> or an
  infinity, never the integer lag.\<close>

lemma interpolate_zero_coefficient:
  assumes "0 < tau" and "tau < int (length cm) - 1"
    and "cm_at cm (tau - 1) = Num s0" and "cm_at cm tau = Num s1"
    and "cm_at cm (tau + 1) = Num s2" and "2 * s1 - s2 - s0 = 0"
  shows "interpolate cm tau = (if s2 = s0 then NaN else if s2 > s0 then PosInf else NegInf)"
  using assms by (simp add: interpolate_def Let_def js_sub_def signed_inf_def)

text \<open>
  C2.  The interpolation step divides by \<open>2 * (2 * s1 - s2 - s0)\<close> without testing it.
  On the 48 samples of \<open>wave21\<close> at 44100 Hz the search stops at \<open>tau = 22\<close> with
  \<open>s0 = 0\<close>, \<open>s1 = 16/109\<close> and \<open>s2 = 32/109\<close>: the divisor is zero, the refined lag is
  \<open>+Infinity\<close> instead of 22, and the frequency returned is 0 instead of \<open>44100 / 22\<close>.
\<close>

theorem C2_interpolation_divides_by_zero:
  "yinPitch wave21 44100 =
     Some \<lparr> yin_frequency = Num 0, yin_confidence = Num (93 / 109), yin_tau = PosInf,
            yin_cmndf = Num (16 / 109) \<rparr>"
  by code_simp

end
